theory Spec2Isabelle
  imports Main
begin

section \<open>The vertical NDI output controller (vertical-output.cpp)\<close>

text \<open>
  The controller owns one process-wide context \<open>vctx\<close> and drives an output object of
  the host (libobs) through the host's C interface. The host is not part of the
  repository: it is modelled as a store of live output objects, a counter for fresh
  handles and the ordered log of every interface call the controller makes. What the
  host answers during one entry-point call (whether a creation or a start request
  succeeds, which procedures and canvases exist) is an argument of type \<open>host\<close>.
  Pointers are \<open>option\<close> values, \<open>None\<close> being \<open>nullptr\<close>. Log output
  (\<open>obs_log\<close>) is omitted.
\<close>

subsection \<open>Data\<close>

type_synonym video_t = nat
type_synonym audio_t = nat

text \<open>
  \<open>struct vertical_output_context\<close>; \<open>output_ptr\<close> is the field \<open>output\<close>,
  the \<open>obs_output_t *\<close>.
\<close>

record vertical_output_context =
  is_running :: bool
  ndi_name :: string
  ndi_groups :: string
  last_error :: string
  output_ptr :: "nat option"

text \<open>The three fields of \<open>Config::Current()\<close> that the controller reads.\<close>

record config =
  VerticalOutputEnabled :: bool
  VerticalOutputName :: string
  VerticalOutputGroups :: string

text \<open>The two signal callbacks that the controller registers.\<close>

datatype handler = on_vertical_output_started | on_vertical_output_stopped

text \<open>A settings dictionary (\<open>obs_data_t\<close>) and the argument block of a procedure call.\<close>

datatype data_value = DString string | DBool bool

type_synonym obs_data = "(string \<times> data_value) list"

datatype cd_value = CD_Int int | CD_Ptr "video_t option"

type_synonym calldata = "string \<rightharpoonup> cd_value"

type_synonym proc_handler_t = "string \<rightharpoonup> (calldata \<Rightarrow> calldata)"

text \<open>
  A canvas of the host: its name, the video that \<open>obs_canvas_get_video\<close> yields, and
  whether \<open>obs_canvas_get_ref\<close> still grants a reference to it.
\<close>

record obs_canvas =
  canvas_id :: nat
  canvas_name :: "string option"
  canvas_video :: "video_t option"
  canvas_alive :: bool

text \<open>An output object of the host, as far as the controller's calls can observe it.\<close>

record obs_output =
  output_id :: string
  output_name :: string
  output_settings :: obs_data
  media_video :: "video_t option"
  media_audio :: "audio_t option"
  active :: bool
  last_error_message :: string
  handlers :: "(string \<times> handler) list"

text \<open>Every host interface call that the controller makes, with its arguments.\<close>

datatype obs_call =
    ObsGetProcHandler
  | ProcHandlerCall string
  | FrontendGetCanvases
  | CanvasGetRef nat
  | FrontendCanvasListFree
  | CanvasGetVideo nat
  | CanvasRelease nat
  | ObsGetVideo
  | ObsGetAudio
  | OutputSetMedia "nat option" "video_t option" "audio_t option"
  | OutputStart "nat option"
  | OutputStop "nat option"
  | OutputGetLastError "nat option"
  | OutputCreate string string obs_data
  | OutputRelease "nat option"
  | OutputGetSignalHandler "nat option"
  | SignalHandlerConnect "nat option" string handler
  | SignalHandlerDisconnect "nat option" string handler

text \<open>
  Modelled from the spec: the host's primary accessors \<open>obs_get_video()\<close> and
  \<open>obs_get_audio()\<close>, which are implemented outside the repository. The
  specification's \<open>mainVideo()\<close> and \<open>mainAudio()\<close> always yield a handle
  ("the fallback cannot fail"), so \<open>main_video\<close> and \<open>main_audio\<close> are
  not optional. The other fields are the host's answers during one entry-point call;
  \<open>HAVE_OBS_CANVAS_API\<close> is the build flag of the same name.
\<close>

record host =
  proc_handler :: "proc_handler_t option"
  HAVE_OBS_CANVAS_API :: bool
  canvases :: "obs_canvas list"
  main_video :: video_t
  main_audio :: audio_t
  create_ok :: bool
  start_ok :: bool
  start_error :: string

record state =
  vctx :: vertical_output_context
  outputs :: "nat \<rightharpoonup> obs_output"
  next_output :: nat
  calls :: "obs_call list"

text \<open>\<open>static struct vertical_output_context vctx = {0}\<close>, and a host without outputs.\<close>

definition vctx0 :: vertical_output_context where
  "vctx0 = \<lparr>is_running = False, ndi_name = [], ndi_groups = [], last_error = [],
            output_ptr = None\<rparr>"

definition initial_state :: state where
  "initial_state = \<lparr>vctx = vctx0, outputs = Map.empty, next_output = 0, calls = []\<rparr>"

definition AITUM_VERTICAL_CANVAS_NAME :: string where
  "AITUM_VERTICAL_CANVAS_NAME = ''Aitum Vertical''"

subsection \<open>The host interface\<close>

text \<open>
  Modelled from the spec: the session factory and the signal subscription of the host
  (create, start, stop, setMedia, release, lastError, subscribe, unsubscribe), which
  libobs implements outside the repository. Each call is appended to the call log.
\<close>

definition log_call :: "obs_call \<Rightarrow> state \<Rightarrow> state" where
  "log_call c s = s\<lparr>calls := calls s @ [c]\<rparr>"

text \<open>An interface call on a null or released output changes nothing.\<close>

definition update_output :: "nat option \<Rightarrow> (obs_output \<Rightarrow> obs_output) \<Rightarrow> state \<Rightarrow> state" where
  "update_output out f s =
     (case out of
        None \<Rightarrow> s
      | Some h \<Rightarrow>
          (case outputs s h of
             None \<Rightarrow> s
           | Some ob \<Rightarrow> s\<lparr>outputs := (outputs s)(h \<mapsto> f ob)\<rparr>))"

definition live_output :: "nat option \<Rightarrow> state \<Rightarrow> obs_output option" where
  "live_output out s = (case out of None \<Rightarrow> None | Some h \<Rightarrow> outputs s h)"

definition obs_output_set_media ::
  "nat option \<Rightarrow> video_t option \<Rightarrow> audio_t option \<Rightarrow> state \<Rightarrow> state" where
  "obs_output_set_media out v a s =
     update_output out (\<lambda>ob. ob\<lparr>media_video := v, media_audio := a\<rparr>)
       (log_call (OutputSetMedia out v a) s)"

definition obs_output_stop :: "nat option \<Rightarrow> state \<Rightarrow> state" where
  "obs_output_stop out s =
     update_output out (\<lambda>ob. ob\<lparr>active := False\<rparr>) (log_call (OutputStop out) s)"

text \<open>
  A start request succeeds or fails as the host decides; a failure leaves the host's
  reason in the output's error message, a success leaves none.
\<close>

definition obs_output_start :: "nat option \<Rightarrow> host \<Rightarrow> state \<Rightarrow> bool \<times> state" where
  "obs_output_start out env s =
     (let s1 = log_call (OutputStart out) s in
      case live_output out s1 of
        None \<Rightarrow> (False, s1)
      | Some ob \<Rightarrow>
          (start_ok env,
           update_output out
             (\<lambda>ob. ob\<lparr>active := start_ok env,
                       last_error_message := (if start_ok env then [] else start_error env)\<rparr>)
             s1))"

definition obs_output_get_last_error :: "nat option \<Rightarrow> state \<Rightarrow> string \<times> state" where
  "obs_output_get_last_error out s =
     (let s1 = log_call (OutputGetLastError out) s in
      case live_output out s1 of
        None \<Rightarrow> ([], s1)
      | Some ob \<Rightarrow> (last_error_message ob, s1))"

definition obs_data_set :: "obs_data \<Rightarrow> string \<Rightarrow> data_value \<Rightarrow> obs_data" where
  "obs_data_set d k v = filter (\<lambda>e. fst e \<noteq> k) d @ [(k, v)]"

definition obs_output_create ::
  "string \<Rightarrow> string \<Rightarrow> obs_data \<Rightarrow> host \<Rightarrow> state \<Rightarrow> nat option \<times> state" where
  "obs_output_create oid name settings env s =
     (let s1 = log_call (OutputCreate oid name settings) s in
      if create_ok env then
        (Some (next_output s1),
         s1\<lparr>outputs := (outputs s1)(next_output s1 \<mapsto>
                \<lparr>output_id = oid, output_name = name, output_settings = settings,
                 media_video = None, media_audio = None, active = False,
                 last_error_message = [], handlers = []\<rparr>),
            next_output := Suc (next_output s1)\<rparr>)
      else (None, s1))"

definition obs_output_release :: "nat option \<Rightarrow> state \<Rightarrow> state" where
  "obs_output_release out s =
     (let s1 = log_call (OutputRelease out) s in
      case out of
        None \<Rightarrow> s1
      | Some h \<Rightarrow> s1\<lparr>outputs := (outputs s1)(h := None)\<rparr>)"

definition obs_output_get_signal_handler :: "nat option \<Rightarrow> state \<Rightarrow> nat option \<times> state" where
  "obs_output_get_signal_handler out s = (out, log_call (OutputGetSignalHandler out) s)"

definition signal_handler_connect :: "nat option \<Rightarrow> string \<Rightarrow> handler \<Rightarrow> state \<Rightarrow> state" where
  "signal_handler_connect sh sig cb s =
     update_output sh (\<lambda>ob. ob\<lparr>handlers := handlers ob @ [(sig, cb)]\<rparr>)
       (log_call (SignalHandlerConnect sh sig cb) s)"

definition signal_handler_disconnect :: "nat option \<Rightarrow> string \<Rightarrow> handler \<Rightarrow> state \<Rightarrow> state" where
  "signal_handler_disconnect sh sig cb s =
     update_output sh (\<lambda>ob. ob\<lparr>handlers := remove1 (sig, cb) (handlers ob)\<rparr>)
       (log_call (SignalHandlerDisconnect sh sig cb) s)"

text \<open>
  \<open>QT_TO_UTF8\<close> hands the host a C string: a \<open>QString\<close>, kept here as its bytes,
  reaches the host only up to its first NUL.
\<close>

definition QT_TO_UTF8 :: "string \<Rightarrow> string" where
  "QT_TO_UTF8 q = takeWhile (\<lambda>c. c \<noteq> CHR 0x00) q"

definition obs_canvas_get_ref :: "obs_canvas \<Rightarrow> obs_canvas option" where
  "obs_canvas_get_ref c = (if canvas_alive c then Some c else None)"

definition calldata_set_int :: "calldata \<Rightarrow> string \<Rightarrow> int \<Rightarrow> calldata" where
  "calldata_set_int cd k n = cd(k \<mapsto> CD_Int n)"

definition calldata_ptr :: "calldata \<Rightarrow> string \<Rightarrow> video_t option" where
  "calldata_ptr cd k = (case cd k of Some (CD_Ptr p) \<Rightarrow> p | _ \<Rightarrow> None)"

definition proc_handler_call :: "proc_handler_t \<Rightarrow> string \<Rightarrow> calldata \<Rightarrow> bool \<times> calldata" where
  "proc_handler_call ph name cd =
     (case ph name of None \<Rightarrow> (False, cd) | Some p \<Rightarrow> (True, p cd))"

subsection \<open>The controller\<close>

text \<open>The signal callbacks write the shared enabled flag and nothing else.\<close>

definition run_handler :: "handler \<Rightarrow> config \<Rightarrow> config" where
  "run_handler cb c =
     (case cb of
        on_vertical_output_started \<Rightarrow> c\<lparr>VerticalOutputEnabled := True\<rparr>
      | on_vertical_output_stopped \<Rightarrow> c\<lparr>VerticalOutputEnabled := False\<rparr>)"

text \<open>
  The loop of \<open>find_aitum_vertical_canvas\<close> stops at the first canvas with the
  reserved name; the function returns what \<open>obs_canvas_get_ref\<close> answers for it.
\<close>

fun find_canvas :: "obs_canvas list \<Rightarrow> obs_canvas option" where
  "find_canvas [] = None"
| "find_canvas (c # cs) =
     (if canvas_name c = Some AITUM_VERTICAL_CANVAS_NAME then Some c else find_canvas cs)"

definition find_aitum_vertical_canvas :: "host \<Rightarrow> state \<Rightarrow> obs_canvas option \<times> state" where
  "find_aitum_vertical_canvas env s =
     (let s1 = log_call FrontendGetCanvases s;
          m = find_canvas (canvases env);
          found = (case m of None \<Rightarrow> None | Some c \<Rightarrow> obs_canvas_get_ref c);
          s2 = (case m of None \<Rightarrow> s1 | Some c \<Rightarrow> log_call (CanvasGetRef (canvas_id c)) s1)
      in (found, log_call FrontendCanvasListFree s2))"

definition get_aitum_vertical_video :: "host \<Rightarrow> state \<Rightarrow> video_t option \<times> state" where
  "get_aitum_vertical_video env s =
     (let s1 = log_call ObsGetProcHandler s in
      case proc_handler env of
        None \<Rightarrow> (None, s1)
      | Some ph \<Rightarrow>
          (let cd = calldata_set_int (calldata_set_int Map.empty ''width'' 0) ''height'' 0;
               r = proc_handler_call ph ''aitum_vertical_get_video'' cd;
               s2 = log_call (ProcHandlerCall ''aitum_vertical_get_video'') s1
           in (if fst r then calldata_ptr (snd r) ''video'' else None, s2)))"

text \<open>
  Lines 132 to 154 of \<open>vertical_output_start\<close>: the three tiers that pick the video
  handle to bind.
\<close>

definition canvas_tier :: "host \<Rightarrow> video_t option \<times> state \<Rightarrow> video_t option \<times> state" where
  "canvas_tier env vs =
     (if HAVE_OBS_CANVAS_API env \<and> fst vs = None then
        (let r = find_aitum_vertical_canvas env (snd vs) in
         case fst r of
           None \<Rightarrow> (None, snd r)
         | Some c \<Rightarrow>
             (canvas_video c,
              log_call (CanvasRelease (canvas_id c))
                (log_call (CanvasGetVideo (canvas_id c)) (snd r))))
      else vs)"

definition main_tier :: "host \<Rightarrow> video_t option \<times> state \<Rightarrow> video_t option \<times> state" where
  "main_tier env vs =
     (if fst vs = None then (Some (main_video env), log_call ObsGetVideo (snd vs)) else vs)"

definition acquire_video :: "host \<Rightarrow> state \<Rightarrow> video_t option \<times> state" where
  "acquire_video env s = main_tier env (canvas_tier env (get_aitum_vertical_video env s))"

definition set_is_running :: "bool \<Rightarrow> state \<Rightarrow> state" where
  "set_is_running b s = s\<lparr>vctx := (vctx s)\<lparr>is_running := b\<rparr>\<rparr>"

definition set_last_error :: "string \<Rightarrow> state \<Rightarrow> state" where
  "set_last_error e s = s\<lparr>vctx := (vctx s)\<lparr>last_error := e\<rparr>\<rparr>"

definition vertical_output_last_error :: "state \<Rightarrow> string" where
  "vertical_output_last_error s = last_error (vctx s)"

definition vertical_output_stop :: "state \<Rightarrow> state" where
  "vertical_output_stop s =
     (if is_running (vctx s) then
        set_is_running False
          (obs_output_stop (output_ptr (vctx s))
            (obs_output_set_media (output_ptr (vctx s)) None None s))
      else s)"

definition vertical_output_start :: "host \<Rightarrow> state \<Rightarrow> state" where
  "vertical_output_start env s =
     (if output_ptr (vctx s) = None then s
      else
        (let s1 = (if is_running (vctx s) then vertical_output_stop s else s);
             r = acquire_video env s1;
             s2 = obs_output_set_media (output_ptr (vctx s1)) (fst r) (Some (main_audio env))
                    (log_call ObsGetAudio (snd r));
             st = obs_output_start (output_ptr (vctx s2)) env s2;
             s3 = set_is_running (fst st) (snd st)
         in if is_running (vctx s3) then set_last_error [] s3
            else
              (let e = obs_output_get_last_error (output_ptr (vctx s3)) s3;
                   s4 = set_last_error (fst e) (snd e)
               in obs_output_stop (output_ptr (vctx s4)) s4)))"

definition vertical_output_is_supported :: "host \<Rightarrow> state \<Rightarrow> bool \<times> state" where
  "vertical_output_is_supported env s =
     (let settings = obs_data_set (obs_data_set [] ''ndi_name'' (DString ''NDI Vertical Support Test''))
                       ''ndi_groups'' (DString ''DistroAV Config'');
          c = obs_output_create ''ndi_output'' ''NDI Vertical Output'' settings env s
      in case fst c of
           Some h \<Rightarrow>
             (let st = obs_output_start (Some h) env (snd c)
              in (fst st, obs_output_release (Some h) (obs_output_stop (Some h) (snd st))))
         | None \<Rightarrow> (False, snd c))"

definition vertical_output_deinit :: "state \<Rightarrow> state" where
  "vertical_output_deinit s =
     (if output_ptr (vctx s) \<noteq> None then
        (let s1 = vertical_output_stop s;
             s2 = obs_output_set_media (output_ptr (vctx s1)) None None s1;
             sh = obs_output_get_signal_handler (output_ptr (vctx s2)) s2;
             s3 = signal_handler_disconnect (fst sh) ''start'' on_vertical_output_started (snd sh);
             s4 = signal_handler_disconnect (fst sh) ''stop'' on_vertical_output_stopped s3;
             s5 = obs_output_release (output_ptr (vctx s4)) s4
         in s5\<lparr>vctx := (vctx s5)\<lparr>output_ptr := None, ndi_name := [], ndi_groups := []\<rparr>\<rparr>)
      else s)"

text \<open>
  The part of \<open>vertical_output_init\<close> after the teardown: lines 227 to 246.
\<close>

definition create_and_start :: "config \<Rightarrow> host \<Rightarrow> state \<Rightarrow> state" where
  "create_and_start cfg env s =
     (let output_settings =
            obs_data_set
              (obs_data_set
                (obs_data_set [] ''ndi_name'' (DString (QT_TO_UTF8 (VerticalOutputName cfg))))
                ''ndi_groups'' (DString (QT_TO_UTF8 (VerticalOutputGroups cfg))))
              ''uses_audio'' (DBool True);
          c = obs_output_create ''ndi_output'' ''NDI Vertical Output'' output_settings env s;
          s1 = (snd c)\<lparr>vctx := (vctx (snd c))\<lparr>output_ptr := fst c\<rparr>\<rparr>
      in if output_ptr (vctx s1) \<noteq> None then
           (let sh = obs_output_get_signal_handler (output_ptr (vctx s1)) s1;
                s2 = signal_handler_connect (fst sh) ''start'' on_vertical_output_started (snd sh);
                s3 = signal_handler_connect (fst sh) ''stop'' on_vertical_output_stopped s2;
                s4 = s3\<lparr>vctx := (vctx s3)\<lparr>ndi_name := VerticalOutputName cfg,
                                             ndi_groups := VerticalOutputGroups cfg\<rparr>\<rparr>
            in vertical_output_start env s4)
         else s1)"

definition vertical_output_init :: "config \<Rightarrow> host \<Rightarrow> state \<Rightarrow> state" where
  "vertical_output_init cfg env s =
     (if \<not> VerticalOutputEnabled cfg \<or> VerticalOutputName cfg = [] then
        vertical_output_deinit s
      else create_and_start cfg env (vertical_output_deinit s))"

subsection \<open>Sequences of entry-point calls\<close>

datatype api_call =
    Init config host
  | Start host
  | Stop
  | Deinit
  | IsSupported host

fun step :: "api_call \<Rightarrow> state \<Rightarrow> state" where
  "step (Init cfg env) s = vertical_output_init cfg env s"
| "step (Start env) s = vertical_output_start env s"
| "step Stop s = vertical_output_stop s"
| "step Deinit s = vertical_output_deinit s"
| "step (IsSupported env) s = snd (vertical_output_is_supported env s)"

fun run :: "api_call list \<Rightarrow> state \<Rightarrow> state" where
  "run [] s = s"
| "run (c # cs) s = run cs (step c s)"

text \<open>The interface calls made between two states of one execution.\<close>

definition new_calls :: "state \<Rightarrow> state \<Rightarrow> obs_call list" where
  "new_calls s s' = drop (length (calls s)) (calls s')"

subsection \<open>Auxiliary definitions for the statements\<close>

text \<open>The calls of the canvas tier, when it is entered.\<close>

definition canvas_calls :: "host \<Rightarrow> obs_call list" where
  "canvas_calls env =
     FrontendGetCanvases #
       (case find_canvas (canvases env) of
          None \<Rightarrow> [FrontendCanvasListFree]
        | Some c \<Rightarrow>
            CanvasGetRef (canvas_id c) # FrontendCanvasListFree #
              (if canvas_alive c
               then [CanvasGetVideo (canvas_id c), CanvasRelease (canvas_id c)] else []))"

text \<open>
  The state of \<open>vertical_output_start\<close> just before its start request (line 155 done):
  stopped if it was running, a video resolved, video and audio bound.
\<close>

definition prepared :: "host \<Rightarrow> state \<Rightarrow> state" where
  "prepared env s =
     (let s1 = (if is_running (vctx s) then vertical_output_stop s else s);
          r = acquire_video env s1
      in obs_output_set_media (output_ptr (vctx s1)) (fst r) (Some (main_audio env))
           (log_call ObsGetAudio (snd r)))"

text \<open>The settings dictionaries that the probe and \<open>vertical_output_init\<close> build.\<close>

definition probe_settings :: obs_data where
  "probe_settings = [(''ndi_name'', DString ''NDI Vertical Support Test''),
                     (''ndi_groups'', DString ''DistroAV Config'')]"

definition init_settings :: "config \<Rightarrow> obs_data" where
  "init_settings cfg = [(''ndi_name'', DString (QT_TO_UTF8 (VerticalOutputName cfg))),
                        (''ndi_groups'', DString (QT_TO_UTF8 (VerticalOutputGroups cfg))),
                        (''uses_audio'', DBool True)]"

text \<open>
  The state in which \<open>vertical_output_init\<close> calls \<open>vertical_output_start\<close> (line 242),
  written out: a fresh output with both callbacks connected, name and groups stored.
\<close>

definition subscribed :: "config \<Rightarrow> state \<Rightarrow> state" where
  "subscribed cfg s =
     \<lparr>vctx = (vctx s)\<lparr>ndi_name := VerticalOutputName cfg, ndi_groups := VerticalOutputGroups cfg,
                      output_ptr := Some (next_output s)\<rparr>,
      outputs = (outputs s)(next_output s \<mapsto>
         \<lparr>output_id = ''ndi_output'', output_name = ''NDI Vertical Output'',
          output_settings = init_settings cfg, media_video = None, media_audio = None,
          active = False, last_error_message = [],
          handlers = [(''start'', on_vertical_output_started),
                      (''stop'', on_vertical_output_stopped)]\<rparr>),
      next_output = Suc (next_output s),
      calls = calls s @
        [OutputCreate ''ndi_output'' ''NDI Vertical Output'' (init_settings cfg),
         OutputGetSignalHandler (Some (next_output s)),
         SignalHandlerConnect (Some (next_output s)) ''start'' on_vertical_output_started,
         SignalHandlerConnect (Some (next_output s)) ''stop'' on_vertical_output_stopped]\<rparr>"

text \<open>The context's output is live and has both a video and an audio source bound.\<close>

definition media_bound :: "state \<Rightarrow> bool" where
  "media_bound s =
     (case live_output (output_ptr (vctx s)) s of
        None \<Rightarrow> False
      | Some ob \<Rightarrow> media_video ob \<noteq> None \<and> media_audio ob \<noteq> None)"

text \<open>The two invariants of the context.\<close>

definition ctx_inv :: "state \<Rightarrow> bool" where
  "ctx_inv s \<longleftrightarrow>
     (output_ptr (vctx s) = None \<longrightarrow> \<not> is_running (vctx s))
     \<and> (is_running (vctx s) \<longrightarrow> output_ptr (vctx s) \<noteq> None \<and> media_bound s)"

text \<open>The inductive strengthening: what every entry point preserves.\<close>

definition ctx_wf :: "state \<Rightarrow> bool" where
  "ctx_wf s =
     (case output_ptr (vctx s) of
        None \<Rightarrow> \<not> is_running (vctx s) \<and> ndi_name (vctx s) = [] \<and> ndi_groups (vctx s) = []
      | Some h \<Rightarrow>
          h < next_output s \<and> outputs s h \<noteq> None
          \<and> (is_running (vctx s) \<longrightarrow> media_bound s))"

subsection \<open>Scenarios\<close>

definition cfg_V1 :: config where
  "cfg_V1 = \<lparr>VerticalOutputEnabled = True, VerticalOutputName = ''V1'',
             VerticalOutputGroups = ''G''\<rparr>"

definition cfg_disabled :: config where
  "cfg_disabled = \<lparr>VerticalOutputEnabled = False, VerticalOutputName = ''V1'',
                   VerticalOutputGroups = ''G''\<rparr>"

text \<open>No vendor plugin, no canvas interface; creation and start succeed.\<close>

definition plain_host :: host where
  "plain_host = \<lparr>proc_handler = None, HAVE_OBS_CANVAS_API = False, canvases = [],
                  main_video = 1, main_audio = 2, create_ok = True, start_ok = True,
                  start_error = []\<rparr>"

text \<open>The start request fails, with and without a reason text.\<close>

definition busy_host :: host where
  "busy_host = plain_host\<lparr>start_ok := False, start_error := ''device busy''\<rparr>"

definition silent_host :: host where
  "silent_host = plain_host\<lparr>start_ok := False\<rparr>"

definition aitum_canvas :: "video_t option \<Rightarrow> obs_canvas" where
  "aitum_canvas v = \<lparr>canvas_id = 1, canvas_name = Some ''Aitum Vertical'', canvas_video = v,
                     canvas_alive = True\<rparr>"

text \<open>The vendor procedure is registered and answers with video 42.\<close>

definition vendor_host :: host where
  "vendor_host = plain_host\<lparr>
     proc_handler :=
       Some [''aitum_vertical_get_video'' \<mapsto> (\<lambda>cd. cd(''video'' \<mapsto> CD_Ptr (Some 42)))],
     HAVE_OBS_CANVAS_API := True, canvases := [aitum_canvas (Some 7)]\<rparr>"

text \<open>No vendor procedure; the second canvas has the reserved name and video 7.\<close>

definition canvas_host :: host where
  "canvas_host = plain_host\<lparr>
     proc_handler := Some Map.empty, HAVE_OBS_CANVAS_API := True,
     canvases := [\<lparr>canvas_id = 0, canvas_name = Some ''Main'', canvas_video = Some 3,
                    canvas_alive = True\<rparr>,
                  aitum_canvas (Some 7)]\<rparr>"

text \<open>The canvas with the reserved name exists, but has no video.\<close>

definition blank_canvas_host :: host where
  "blank_canvas_host =
     plain_host\<lparr>HAVE_OBS_CANVAS_API := True, canvases := [aitum_canvas None]\<rparr>"

text \<open>The canvas with the reserved name is being destroyed: no reference is granted.\<close>

definition dying_canvas_host :: host where
  "dying_canvas_host =
     plain_host\<lparr>HAVE_OBS_CANVAS_API := True,
                canvases := [(aitum_canvas (Some 7))\<lparr>canvas_alive := False\<rparr>]\<rparr>"

text \<open>A configured name with an embedded NUL.\<close>

definition cfg_nul :: config where
  "cfg_nul = \<lparr>VerticalOutputEnabled = True, VerticalOutputName = ''A'' @ [CHR 0x00] @ ''B'',
              VerticalOutputGroups = ''G''\<rparr>"

definition running_state :: state where
  "running_state = vertical_output_init cfg_V1 plain_host initial_state"

definition failed_state :: state where
  "failed_state = vertical_output_init cfg_V1 busy_host initial_state"

section \<open>Properties\<close>

subsection \<open>The host interface, call by call\<close>

lemma log_call_simps:
  "vctx (log_call c s) = vctx s"
  "outputs (log_call c s) = outputs s"
  "next_output (log_call c s) = next_output s"
  "calls (log_call c s) = calls s @ [c]"
  by (simp_all add: log_call_def)

lemma update_output_simps:
  "vctx (update_output out f s) = vctx s"
  "next_output (update_output out f s) = next_output s"
  "calls (update_output out f s) = calls s"
  by (simp_all add: update_output_def split: option.splits)

lemma update_output_outputs:
  "outputs (update_output out f s) h =
     (if out = Some h then map_option f (outputs s h) else outputs s h)"
  by (auto simp: update_output_def split: option.splits)

lemma set_media_simps:
  "vctx (obs_output_set_media out v a s) = vctx s"
  "next_output (obs_output_set_media out v a s) = next_output s"
  "calls (obs_output_set_media out v a s) = calls s @ [OutputSetMedia out v a]"
  "outputs (obs_output_set_media out v a s) h =
     (if out = Some h then map_option (\<lambda>ob. ob\<lparr>media_video := v, media_audio := a\<rparr>) (outputs s h)
      else outputs s h)"
  by (simp_all add: obs_output_set_media_def update_output_simps update_output_outputs log_call_simps)

lemma stop_simps:
  "vctx (obs_output_stop out s) = vctx s"
  "next_output (obs_output_stop out s) = next_output s"
  "calls (obs_output_stop out s) = calls s @ [OutputStop out]"
  "outputs (obs_output_stop out s) h =
     (if out = Some h then map_option (\<lambda>ob. ob\<lparr>active := False\<rparr>) (outputs s h)
      else outputs s h)"
  by (simp_all add: obs_output_stop_def update_output_simps update_output_outputs log_call_simps)

lemma start_simps:
  "vctx (snd (obs_output_start out env s)) = vctx s"
  "next_output (snd (obs_output_start out env s)) = next_output s"
  "calls (snd (obs_output_start out env s)) = calls s @ [OutputStart out]"
  "outputs (snd (obs_output_start out env s)) h =
     (if out = Some h then
        map_option (\<lambda>ob. ob\<lparr>active := start_ok env,
           last_error_message := (if start_ok env then [] else start_error env)\<rparr>) (outputs s h)
      else outputs s h)"
  "fst (obs_output_start out env s) = (live_output out s \<noteq> None \<and> start_ok env)"
  by (auto simp: obs_output_start_def Let_def live_output_def update_output_simps
      update_output_outputs log_call_simps split: option.splits)

lemma get_last_error_simps:
  "snd (obs_output_get_last_error out s) = log_call (OutputGetLastError out) s"
  "fst (obs_output_get_last_error out s) =
     (case live_output out s of None \<Rightarrow> [] | Some ob \<Rightarrow> last_error_message ob)"
  by (auto simp: obs_output_get_last_error_def Let_def live_output_def log_call_simps
      split: option.splits)

lemma release_simps:
  "vctx (obs_output_release out s) = vctx s"
  "next_output (obs_output_release out s) = next_output s"
  "calls (obs_output_release out s) = calls s @ [OutputRelease out]"
  "outputs (obs_output_release out s) h = (if out = Some h then None else outputs s h)"
  by (auto simp: obs_output_release_def Let_def log_call_simps split: option.splits)

lemma connect_simps:
  "vctx (signal_handler_connect sh sig cb s) = vctx s"
  "next_output (signal_handler_connect sh sig cb s) = next_output s"
  "calls (signal_handler_connect sh sig cb s) = calls s @ [SignalHandlerConnect sh sig cb]"
  "outputs (signal_handler_connect sh sig cb s) h =
     (if sh = Some h then map_option (\<lambda>ob. ob\<lparr>handlers := handlers ob @ [(sig, cb)]\<rparr>) (outputs s h)
      else outputs s h)"
  by (simp_all add: signal_handler_connect_def update_output_simps update_output_outputs log_call_simps)

lemma disconnect_simps:
  "vctx (signal_handler_disconnect sh sig cb s) = vctx s"
  "next_output (signal_handler_disconnect sh sig cb s) = next_output s"
  "calls (signal_handler_disconnect sh sig cb s) = calls s @ [SignalHandlerDisconnect sh sig cb]"
  "outputs (signal_handler_disconnect sh sig cb s) h =
     (if sh = Some h then map_option (\<lambda>ob. ob\<lparr>handlers := remove1 (sig, cb) (handlers ob)\<rparr>) (outputs s h)
      else outputs s h)"
  by (simp_all add: signal_handler_disconnect_def update_output_simps update_output_outputs log_call_simps)

lemma get_signal_handler_simps:
  "fst (obs_output_get_signal_handler out s) = out"
  "snd (obs_output_get_signal_handler out s) = log_call (OutputGetSignalHandler out) s"
  by (simp_all add: obs_output_get_signal_handler_def)

lemma create_simps:
  "vctx (snd (obs_output_create oid name d env s)) = vctx s"
  "calls (snd (obs_output_create oid name d env s)) = calls s @ [OutputCreate oid name d]"
  "fst (obs_output_create oid name d env s) = (if create_ok env then Some (next_output s) else None)"
  "next_output (snd (obs_output_create oid name d env s)) =
     (if create_ok env then Suc (next_output s) else next_output s)"
  "outputs (snd (obs_output_create oid name d env s)) h =
     (if create_ok env \<and> h = next_output s then
        Some \<lparr>output_id = oid, output_name = name, output_settings = d,
                 media_video = None, media_audio = None, active = False,
                 last_error_message = [], handlers = []\<rparr>
      else outputs s h)"
  by (simp_all add: obs_output_create_def Let_def log_call_simps)

lemma set_is_running_simps:
  "vctx (set_is_running b s) = (vctx s)\<lparr>is_running := b\<rparr>"
  "outputs (set_is_running b s) = outputs s"
  "next_output (set_is_running b s) = next_output s"
  "calls (set_is_running b s) = calls s"
  by (simp_all add: set_is_running_def)

lemma set_last_error_simps:
  "vctx (set_last_error e s) = (vctx s)\<lparr>last_error := e\<rparr>"
  "outputs (set_last_error e s) = outputs s"
  "next_output (set_last_error e s) = next_output s"
  "calls (set_last_error e s) = calls s"
  by (simp_all add: set_last_error_def)

lemmas host_simps = log_call_simps update_output_simps set_media_simps stop_simps start_simps
  get_last_error_simps release_simps connect_simps disconnect_simps get_signal_handler_simps
  create_simps set_is_running_simps set_last_error_simps

lemma new_calls_append: "calls s' = calls s @ xs \<Longrightarrow> new_calls s s' = xs"
  by (simp add: new_calls_def)

subsection \<open>The resolver\<close>

lemma find_canvas_None:
  "find_canvas cs = None \<longleftrightarrow>
     (\<forall>c \<in> set cs. canvas_name c \<noteq> Some AITUM_VERTICAL_CANVAS_NAME)"
  by (induction cs) simp_all

lemma find_canvas_Some:
  "find_canvas cs = Some c \<Longrightarrow> c \<in> set cs \<and> canvas_name c = Some AITUM_VERTICAL_CANVAS_NAME"
  by (induction cs) (auto split: if_splits)

lemma find_canvas_calls:
  "calls (snd (find_aitum_vertical_canvas env s)) =
     calls s @ FrontendGetCanvases #
       (case find_canvas (canvases env) of None \<Rightarrow> [] | Some c \<Rightarrow> [CanvasGetRef (canvas_id c)])
       @ [FrontendCanvasListFree]"
  by (simp add: find_aitum_vertical_canvas_def Let_def host_simps split: option.splits)

lemma find_canvas_frame:
  "vctx (snd (find_aitum_vertical_canvas env s)) = vctx s"
  "outputs (snd (find_aitum_vertical_canvas env s)) = outputs s"
  "next_output (snd (find_aitum_vertical_canvas env s)) = next_output s"
  "fst (find_aitum_vertical_canvas env s) =
     (case find_canvas (canvases env) of None \<Rightarrow> None | Some c \<Rightarrow> obs_canvas_get_ref c)"
  by (simp_all add: find_aitum_vertical_canvas_def Let_def host_simps split: option.splits)

lemma vendor_calls:
  "calls (snd (get_aitum_vertical_video env s)) =
     calls s @ ObsGetProcHandler #
       (case proc_handler env of None \<Rightarrow> [] | Some ph \<Rightarrow> [ProcHandlerCall ''aitum_vertical_get_video''])"
  by (simp add: get_aitum_vertical_video_def Let_def host_simps split: option.splits)

lemma vendor_frame:
  "vctx (snd (get_aitum_vertical_video env s)) = vctx s"
  "outputs (snd (get_aitum_vertical_video env s)) = outputs s"
  "next_output (snd (get_aitum_vertical_video env s)) = next_output s"
  by (simp_all add: get_aitum_vertical_video_def Let_def host_simps split: option.splits)

lemma canvas_tier_calls:
  "calls (snd (canvas_tier env vs)) =
     calls (snd vs) @ (if HAVE_OBS_CANVAS_API env \<and> fst vs = None then canvas_calls env else [])"
  by (simp add: canvas_tier_def canvas_calls_def Let_def host_simps find_canvas_calls find_canvas_frame
      obs_canvas_get_ref_def split: option.splits)

lemma canvas_tier_frame:
  "vctx (snd (canvas_tier env vs)) = vctx (snd vs)"
  "outputs (snd (canvas_tier env vs)) = outputs (snd vs)"
  "next_output (snd (canvas_tier env vs)) = next_output (snd vs)"
  by (simp_all add: canvas_tier_def Let_def host_simps find_canvas_frame split: option.splits)

lemma canvas_tier_fst:
  "fst (canvas_tier env vs) =
     (if HAVE_OBS_CANVAS_API env \<and> fst vs = None then
        (case find_canvas (canvases env) of
           None \<Rightarrow> None
         | Some c \<Rightarrow> (if canvas_alive c then canvas_video c else None))
      else fst vs)"
  by (simp add: canvas_tier_def Let_def find_canvas_frame obs_canvas_get_ref_def split: option.splits)

lemma main_tier_simps:
  "fst (main_tier env vs) = (if fst vs = None then Some (main_video env) else fst vs)"
  "calls (snd (main_tier env vs)) = calls (snd vs) @ (if fst vs = None then [ObsGetVideo] else [])"
  "vctx (snd (main_tier env vs)) = vctx (snd vs)"
  "outputs (snd (main_tier env vs)) = outputs (snd vs)"
  "next_output (snd (main_tier env vs)) = next_output (snd vs)"
  by (simp_all add: main_tier_def host_simps)

lemma acquire_video_frame:
  "vctx (snd (acquire_video env s)) = vctx s"
  "outputs (snd (acquire_video env s)) = outputs s"
  "next_output (snd (acquire_video env s)) = next_output s"
  by (simp_all add: acquire_video_def main_tier_simps canvas_tier_frame vendor_frame)

lemma acquire_video_calls:
  "calls (snd (acquire_video env s)) =
     calls (snd (get_aitum_vertical_video env s))
       @ (if HAVE_OBS_CANVAS_API env \<and> fst (get_aitum_vertical_video env s) = None
          then canvas_calls env else [])
       @ (if fst (canvas_tier env (get_aitum_vertical_video env s)) = None then [ObsGetVideo] else [])"
  by (simp add: acquire_video_def main_tier_simps canvas_tier_calls)

lemma acquire_video_not_null: "fst (acquire_video env s) \<noteq> None"
  by (simp add: acquire_video_def main_tier_simps)

lemma canvas_calls_no_main: "ObsGetVideo \<notin> set (canvas_calls env)"
  by (simp add: canvas_calls_def split: option.splits)

lemma acquire_video_extends: "\<exists>xs. calls (snd (acquire_video env s)) = calls s @ xs"
  by (simp add: acquire_video_calls vendor_calls)

subsection \<open>Stop and start\<close>

lemma stop_vctx:
  "vctx (vertical_output_stop s) = (vctx s)\<lparr>is_running := False\<rparr>"
  by (simp add: vertical_output_stop_def host_simps)

lemma stop_frame:
  "next_output (vertical_output_stop s) = next_output s"
  "calls (vertical_output_stop s) =
     calls s @ (if is_running (vctx s)
                then [OutputSetMedia (output_ptr (vctx s)) None None, OutputStop (output_ptr (vctx s))]
                else [])"
  by (simp_all add: vertical_output_stop_def host_simps)

lemma stop_outputs:
  "outputs (vertical_output_stop s) h =
     (if is_running (vctx s) \<and> output_ptr (vctx s) = Some h then
        map_option (\<lambda>ob. ob\<lparr>media_video := None, media_audio := None, active := False\<rparr>) (outputs s h)
      else outputs s h)"
  by (simp add: vertical_output_stop_def host_simps option.map_comp comp_def)

lemma start_unfold:
  "output_ptr (vctx s) = Some h \<Longrightarrow>
   vertical_output_start env s =
     (let p = prepared env s;
          st = obs_output_start (Some h) env p;
          s3 = set_is_running (fst st) (snd st)
      in if fst st then set_last_error [] s3
         else obs_output_stop (Some h)
                (set_last_error (fst (obs_output_get_last_error (Some h) s3))
                   (log_call (OutputGetLastError (Some h)) s3)))"
  by (simp add: vertical_output_start_def prepared_def Let_def stop_vctx acquire_video_frame
      set_media_simps(1) log_call_simps(1) start_simps(1) set_is_running_simps(1)
      get_last_error_simps(1) set_last_error_simps(1))

lemma prepared_frame:
  "vctx (prepared env s) = (vctx s)\<lparr>is_running := False\<rparr>"
  "next_output (prepared env s) = next_output s"
  by (auto simp add: prepared_def Let_def host_simps acquire_video_frame stop_vctx stop_frame)

lemma prepared_calls:
  "calls (prepared env s) =
     calls (snd (acquire_video env (if is_running (vctx s) then vertical_output_stop s else s)))
       @ [ObsGetAudio,
          OutputSetMedia (output_ptr (vctx s))
            (fst (acquire_video env (if is_running (vctx s) then vertical_output_stop s else s)))
            (Some (main_audio env))]"
  by (simp add: prepared_def Let_def host_simps stop_vctx)

lemma prepared_outputs:
  "outputs (prepared env s) k =
     (if output_ptr (vctx s) = Some k then
        map_option
          (\<lambda>ob. ob\<lparr>media_video :=
                      fst (acquire_video env (if is_running (vctx s) then vertical_output_stop s else s)),
                    media_audio := Some (main_audio env),
                    active := (if is_running (vctx s) then False else active ob)\<rparr>)
          (outputs s k)
      else outputs s k)"
  by (cases "outputs s k")
     (auto simp: prepared_def Let_def host_simps stop_vctx stop_outputs acquire_video_frame)

lemma start_null: "output_ptr (vctx s) = None \<Longrightarrow> vertical_output_start env s = s"
  by (simp add: vertical_output_start_def)

lemma start_vctx:
  assumes "output_ptr (vctx s) = Some h"
  shows "vctx (vertical_output_start env s) =
           (if outputs s h \<noteq> None \<and> start_ok env
            then (vctx s)\<lparr>is_running := True, last_error := []\<rparr>
            else (vctx s)\<lparr>is_running := False,
                   last_error := (if outputs s h = None then [] else start_error env)\<rparr>)"
  using assms
  by (cases "outputs s h")
     (auto simp: start_unfold Let_def host_simps prepared_frame prepared_outputs live_output_def)

lemma start_next_output: "next_output (vertical_output_start env s) = next_output s"
proof (cases "output_ptr (vctx s)")
  case None
  then show ?thesis by (simp add: start_null)
next
  case (Some h)
  then show ?thesis by (simp add: start_unfold Let_def host_simps prepared_frame)
qed

lemma start_outputs:
  assumes "output_ptr (vctx s) = Some h"
  shows "outputs (vertical_output_start env s) k =
     (if k = h then
        map_option
          (\<lambda>ob. ob\<lparr>media_video :=
                      fst (acquire_video env (if is_running (vctx s) then vertical_output_stop s else s)),
                    media_audio := Some (main_audio env),
                    active := start_ok env,
                    last_error_message := (if start_ok env then [] else start_error env)\<rparr>)
          (outputs s k)
      else outputs s k)"
  using assms
  by (cases "outputs s h")
     (auto simp: start_unfold Let_def host_simps prepared_frame prepared_outputs live_output_def)

lemma start_calls:
  assumes "output_ptr (vctx s) = Some h"
  shows "calls (vertical_output_start env s) =
     calls (prepared env s) @ OutputStart (Some h) #
       (if outputs s h \<noteq> None \<and> start_ok env then []
        else [OutputGetLastError (Some h), OutputStop (Some h)])"
  using assms
  by (cases "outputs s h")
     (auto simp: start_unfold Let_def host_simps prepared_frame prepared_outputs live_output_def)

lemma start_extends: "\<exists>xs. calls (vertical_output_start env s) = calls s @ xs"
proof (cases "output_ptr (vctx s)")
  case None
  then show ?thesis by (simp add: start_null)
next
  case (Some h)
  let ?s1 = "if is_running (vctx s) then vertical_output_stop s else s"
  obtain xs where xs: "calls (snd (acquire_video env ?s1)) = calls ?s1 @ xs"
    using acquire_video_extends by blast
  have "\<exists>ys. calls ?s1 = calls s @ ys"
    by (simp add: stop_frame)
  then obtain ys where ys: "calls ?s1 = calls s @ ys" by blast
  show ?thesis
    by (simp only: start_calls [OF Some] prepared_calls xs ys append_assoc) blast
qed

lemma start_keeps:
  "output_ptr (vctx (vertical_output_start env s)) = output_ptr (vctx s)"
  "ndi_name (vctx (vertical_output_start env s)) = ndi_name (vctx s)"
  "ndi_groups (vctx (vertical_output_start env s)) = ndi_groups (vctx s)"
  by (cases "output_ptr (vctx s)"; simp add: start_null start_vctx)+

subsection \<open>Teardown, probe and initialisation\<close>

lemma deinit_null: "output_ptr (vctx s) = None \<Longrightarrow> vertical_output_deinit s = s"
  by (simp add: vertical_output_deinit_def)

lemma deinit_vctx:
  "output_ptr (vctx s) = Some h \<Longrightarrow>
   vctx (vertical_output_deinit s) =
     (vctx s)\<lparr>is_running := False, ndi_name := [], ndi_groups := [], output_ptr := None\<rparr>"
  by (simp add: vertical_output_deinit_def Let_def host_simps stop_vctx)

lemma deinit_next_output: "next_output (vertical_output_deinit s) = next_output s"
  by (simp add: vertical_output_deinit_def Let_def host_simps stop_vctx stop_frame)

lemma deinit_calls:
  "output_ptr (vctx s) = Some h \<Longrightarrow>
   calls (vertical_output_deinit s) =
     calls s
       @ (if is_running (vctx s)
          then [OutputSetMedia (Some h) None None, OutputStop (Some h)] else [])
       @ [OutputSetMedia (Some h) None None, OutputGetSignalHandler (Some h),
          SignalHandlerDisconnect (Some h) ''start'' on_vertical_output_started,
          SignalHandlerDisconnect (Some h) ''stop'' on_vertical_output_stopped,
          OutputRelease (Some h)]"
  by (simp add: vertical_output_deinit_def Let_def host_simps stop_vctx stop_frame)

lemma deinit_outputs:
  "output_ptr (vctx s) = Some h \<Longrightarrow>
   outputs (vertical_output_deinit s) k = (if k = h then None else outputs s k)"
  by (simp add: vertical_output_deinit_def Let_def host_simps stop_vctx stop_outputs)

lemma deinit_output_ptr: "output_ptr (vctx (vertical_output_deinit s)) = None"
  by (cases "output_ptr (vctx s)") (simp_all add: deinit_null deinit_vctx)

lemma is_supported_result:
  "fst (vertical_output_is_supported env s) = (create_ok env \<and> start_ok env)"
  by (simp add: vertical_output_is_supported_def Let_def host_simps live_output_def)

lemma is_supported_vctx: "vctx (snd (vertical_output_is_supported env s)) = vctx s"
  by (simp add: vertical_output_is_supported_def Let_def host_simps)

lemma is_supported_next_output:
  "next_output (snd (vertical_output_is_supported env s)) =
     (if create_ok env then Suc (next_output s) else next_output s)"
  by (simp add: vertical_output_is_supported_def Let_def host_simps)

lemma is_supported_outputs:
  "outputs (snd (vertical_output_is_supported env s)) k =
     (if create_ok env \<and> k = next_output s then None else outputs s k)"
  by (simp add: vertical_output_is_supported_def Let_def host_simps)

lemma is_supported_calls:
  "calls (snd (vertical_output_is_supported env s)) =
     calls s @ OutputCreate ''ndi_output'' ''NDI Vertical Output'' probe_settings #
       (if create_ok env
        then [OutputStart (Some (next_output s)), OutputStop (Some (next_output s)),
              OutputRelease (Some (next_output s))]
        else [])"
  by (simp add: vertical_output_is_supported_def Let_def host_simps probe_settings_def obs_data_set_def)

lemma QT_TO_UTF8_id: "CHR 0x00 \<notin> set q \<Longrightarrow> QT_TO_UTF8 q = q"
  by (auto simp: QT_TO_UTF8_def takeWhile_eq_all_conv)

lemma create_and_start_ok:
  "create_ok env \<Longrightarrow> create_and_start cfg env s = vertical_output_start env (subscribed cfg s)"
  apply (simp add: create_and_start_def Let_def host_simps)
  apply (rule arg_cong [where f = "vertical_output_start env"])
  apply (rule state.equality)
  apply (simp_all add: host_simps subscribed_def init_settings_def obs_data_set_def fun_eq_iff)
  done

lemma create_and_start_fail:
  "\<not> create_ok env \<Longrightarrow>
   create_and_start cfg env s =
     s\<lparr>vctx := (vctx s)\<lparr>output_ptr := None\<rparr>,
       calls := calls s @ [OutputCreate ''ndi_output'' ''NDI Vertical Output'' (init_settings cfg)]\<rparr>"
  apply (simp add: create_and_start_def Let_def host_simps)
  apply (rule state.equality)
  apply (simp_all add: host_simps init_settings_def obs_data_set_def obs_output_create_def log_call_def)
  done

subsection \<open>Every entry point preserves the invariant\<close>

lemma wf_initial: "ctx_wf initial_state"
  by (simp add: ctx_wf_def initial_state_def vctx0_def)

lemma wf_stop: "ctx_wf s \<Longrightarrow> ctx_wf (vertical_output_stop s)"
  by (auto simp: ctx_wf_def stop_vctx stop_frame stop_outputs split: option.splits)

lemma wf_start: "ctx_wf s \<Longrightarrow> ctx_wf (vertical_output_start env s)"
proof (cases "output_ptr (vctx s)")
  case None
  then show "ctx_wf s \<Longrightarrow> ?thesis" by (simp add: start_null)
next
  case (Some h)
  assume "ctx_wf s"
  with Some obtain ob where ob: "outputs s h = Some ob" and h: "h < next_output s"
    by (auto simp: ctx_wf_def)
  show ?thesis
    using Some ob h
    by (simp add: ctx_wf_def start_vctx start_next_output start_outputs media_bound_def
        live_output_def acquire_video_not_null)
qed

lemma wf_deinit: "ctx_wf s \<Longrightarrow> ctx_wf (vertical_output_deinit s)"
  by (cases "output_ptr (vctx s)") (simp_all add: deinit_null deinit_vctx ctx_wf_def)

lemma wf_subscribed:
  "output_ptr (vctx s) = None \<Longrightarrow> ctx_wf s \<Longrightarrow> ctx_wf (subscribed cfg s)"
  by (simp add: ctx_wf_def subscribed_def)

lemma wf_init: "ctx_wf s \<Longrightarrow> ctx_wf (vertical_output_init cfg env s)"
proof -
  assume wf: "ctx_wf s"
  have d: "ctx_wf (vertical_output_deinit s)" using wf by (rule wf_deinit)
  have n: "output_ptr (vctx (vertical_output_deinit s)) = None" by (rule deinit_output_ptr)
  have "ctx_wf (create_and_start cfg env (vertical_output_deinit s))"
  proof (cases "create_ok env")
    case True
    then show ?thesis
      by (simp add: create_and_start_ok wf_start wf_subscribed d n)
  next
    case False
    then show ?thesis
      using d n by (simp add: create_and_start_fail ctx_wf_def)
  qed
  then show ?thesis using d by (simp add: vertical_output_init_def)
qed

lemma wf_is_supported: "ctx_wf s \<Longrightarrow> ctx_wf (snd (vertical_output_is_supported env s))"
  by (auto simp: ctx_wf_def is_supported_vctx is_supported_next_output is_supported_outputs
      media_bound_def live_output_def split: option.splits)

lemma wf_step: "ctx_wf s \<Longrightarrow> ctx_wf (step c s)"
  by (cases c) (simp_all add: wf_init wf_start wf_stop wf_deinit wf_is_supported)

lemma wf_run: "ctx_wf s \<Longrightarrow> ctx_wf (run cs s)"
  by (induction cs arbitrary: s) (simp_all add: wf_step)

lemma wf_reachable: "ctx_wf (run cs initial_state)"
  by (simp add: wf_run wf_initial)

lemma wf_ctx_inv: "ctx_wf s \<Longrightarrow> ctx_inv s"
  by (auto simp: ctx_wf_def ctx_inv_def split: option.splits)

subsection \<open>Evaluating the scenarios\<close>

lemmas scenario_defs = cfg_V1_def cfg_disabled_def dying_canvas_host_def cfg_nul_def plain_host_def busy_host_def silent_host_def
  aitum_canvas_def vendor_host_def canvas_host_def blank_canvas_host_def initial_state_def vctx0_def

lemmas resolver_defs = acquire_video_def main_tier_def canvas_tier_def get_aitum_vertical_video_def
  find_aitum_vertical_canvas_def obs_canvas_get_ref_def proc_handler_call_def calldata_ptr_def calldata_set_int_def
  AITUM_VERTICAL_CANVAS_NAME_def log_call_def new_calls_def Let_def

lemmas controller_defs = vertical_output_init_def create_and_start_def vertical_output_deinit_def
  vertical_output_start_def vertical_output_stop_def vertical_output_is_supported_def
  obs_output_create_def obs_output_start_def obs_output_stop_def obs_output_set_media_def
  obs_output_get_last_error_def obs_output_release_def obs_output_get_signal_handler_def
  signal_handler_connect_def signal_handler_disconnect_def update_output_def live_output_def
  set_is_running_def set_last_error_def obs_data_set_def QT_TO_UTF8_def

lemma running_state_eval:
  "running_state =
     \<lparr>vctx = \<lparr>is_running = True, ndi_name = ''V1'', ndi_groups = ''G'', last_error = [],
              output_ptr = Some 0\<rparr>,
      outputs = [0 \<mapsto> \<lparr>output_id = ''ndi_output'', output_name = ''NDI Vertical Output'',
          output_settings = init_settings cfg_V1, media_video = Some 1, media_audio = Some 2,
          active = True, last_error_message = [],
          handlers = [(''start'', on_vertical_output_started), (''stop'', on_vertical_output_stopped)]\<rparr>],
      next_output = 1,
      calls = [OutputCreate ''ndi_output'' ''NDI Vertical Output'' (init_settings cfg_V1),
         OutputGetSignalHandler (Some 0),
         SignalHandlerConnect (Some 0) ''start'' on_vertical_output_started,
         SignalHandlerConnect (Some 0) ''stop'' on_vertical_output_stopped,
         ObsGetProcHandler, ObsGetVideo, ObsGetAudio,
         OutputSetMedia (Some 0) (Some 1) (Some 2), OutputStart (Some 0)]\<rparr>"
  by (simp add: running_state_def scenario_defs controller_defs resolver_defs init_settings_def)

lemma failed_state_vctx:
  "vctx failed_state = \<lparr>is_running = False, ndi_name = ''V1'', ndi_groups = ''G'',
      last_error = ''device busy'', output_ptr = Some 0\<rparr>"
  by (simp add: failed_state_def scenario_defs controller_defs resolver_defs)

section \<open>The claims\<close>

text \<open>
  C1 (video source resolution, as the code has it). The resolver asks the vendor
  procedure first. If that yields a handle, the handle is the result, the resolver makes
  no further call, and neither the canvas list nor the main video is consulted. If it
  yields none, the canvas interface is compiled in, and the first canvas named exactly
  "Aitum Vertical" grants a reference and has a video, that video is the result and the
  main video is not consulted. In every other case without a vendor handle (no canvas
  interface, no canvas of that name, no reference granted, or a canvas without video)
  the main video is requested as the last call and is the result. The main video is
  requested only then. The canvas list is requested only when the interface is compiled
  in and the vendor procedure gave no handle. The result is never null, and the context
  is not touched.
\<close>

theorem acquire_video_tiers:
  "(fst (get_aitum_vertical_video env s) = Some v \<longrightarrow>
      fst (acquire_video env s) = Some v
      \<and> new_calls s (snd (acquire_video env s)) = new_calls s (snd (get_aitum_vertical_video env s))
      \<and> FrontendGetCanvases \<notin> set (new_calls s (snd (acquire_video env s)))
      \<and> ObsGetVideo \<notin> set (new_calls s (snd (acquire_video env s))))
   \<and> (fst (get_aitum_vertical_video env s) = None \<and> HAVE_OBS_CANVAS_API env
        \<and> find_canvas (canvases env) = Some c \<and> canvas_alive c \<and> canvas_video c = Some w \<longrightarrow>
      fst (acquire_video env s) = Some w
      \<and> ObsGetVideo \<notin> set (new_calls s (snd (acquire_video env s))))
   \<and> (fst (get_aitum_vertical_video env s) = None
        \<and> (\<not> HAVE_OBS_CANVAS_API env \<or> find_canvas (canvases env) = None) \<longrightarrow>
      fst (acquire_video env s) = Some (main_video env)
      \<and> ObsGetVideo \<in> set (new_calls s (snd (acquire_video env s)))
      \<and> last (new_calls s (snd (acquire_video env s))) = ObsGetVideo)
   \<and> (fst (get_aitum_vertical_video env s) = None \<and> HAVE_OBS_CANVAS_API env
        \<and> find_canvas (canvases env) = Some c
        \<and> (\<not> canvas_alive c \<or> canvas_video c = None) \<longrightarrow>
      fst (acquire_video env s) = Some (main_video env)
      \<and> ObsGetVideo \<in> set (new_calls s (snd (acquire_video env s)))
      \<and> last (new_calls s (snd (acquire_video env s))) = ObsGetVideo)
   \<and> (ObsGetVideo \<in> set (new_calls s (snd (acquire_video env s))) \<longrightarrow>
      fst (get_aitum_vertical_video env s) = None
      \<and> fst (acquire_video env s) = Some (main_video env)
      \<and> last (new_calls s (snd (acquire_video env s))) = ObsGetVideo)
   \<and> (FrontendGetCanvases \<in> set (new_calls s (snd (acquire_video env s))) \<longrightarrow>
      HAVE_OBS_CANVAS_API env \<and> fst (get_aitum_vertical_video env s) = None)
   \<and> hd (new_calls s (snd (acquire_video env s))) = ObsGetProcHandler
   \<and> fst (acquire_video env s) \<noteq> None
   \<and> vctx (snd (acquire_video env s)) = vctx s"
proof -
  let ?r = "acquire_video env s"
  let ?g = "get_aitum_vertical_video env s"
  have nc: "new_calls s (snd ?r) =
      ObsGetProcHandler #
       (case proc_handler env of None \<Rightarrow> [] | Some ph \<Rightarrow> [ProcHandlerCall ''aitum_vertical_get_video''])
       @ (if HAVE_OBS_CANVAS_API env \<and> fst ?g = None then canvas_calls env else [])
       @ (if fst (canvas_tier env ?g) = None then [ObsGetVideo] else [])"
    by (rule new_calls_append) (simp add: acquire_video_calls vendor_calls)
  have ng: "new_calls s (snd ?g) =
      ObsGetProcHandler #
       (case proc_handler env of None \<Rightarrow> [] | Some ph \<Rightarrow> [ProcHandlerCall ''aitum_vertical_get_video''])"
    by (rule new_calls_append) (simp add: vendor_calls)
  have r: "fst ?r = (if fst (canvas_tier env ?g) = None then Some (main_video env)
                     else fst (canvas_tier env ?g))"
    by (simp add: acquire_video_def main_tier_simps)
  have a: "fst ?g = Some v \<longrightarrow> fst ?r = Some v \<and> new_calls s (snd ?r) = new_calls s (snd ?g)
      \<and> FrontendGetCanvases \<notin> set (new_calls s (snd ?r))
      \<and> ObsGetVideo \<notin> set (new_calls s (snd ?r))"
    by (auto simp: nc ng r canvas_tier_fst split: option.splits)
  have b: "fst ?g = None \<and> HAVE_OBS_CANVAS_API env
        \<and> find_canvas (canvases env) = Some c \<and> canvas_alive c \<and> canvas_video c = Some w \<longrightarrow>
      fst ?r = Some w \<and> ObsGetVideo \<notin> set (new_calls s (snd ?r))"
    by (auto simp: nc r canvas_tier_fst canvas_calls_no_main split: option.splits)
  have m1: "fst ?g = None \<and> (\<not> HAVE_OBS_CANVAS_API env \<or> find_canvas (canvases env) = None) \<longrightarrow>
      fst (canvas_tier env ?g) = None"
    by (auto simp: canvas_tier_fst)
  have m2: "fst ?g = None \<and> HAVE_OBS_CANVAS_API env \<and> find_canvas (canvases env) = Some c
        \<and> (\<not> canvas_alive c \<or> canvas_video c = None) \<longrightarrow>
      fst (canvas_tier env ?g) = None"
    by (auto simp: canvas_tier_fst)
  have m: "fst (canvas_tier env ?g) = None \<longrightarrow>
      fst ?r = Some (main_video env) \<and> ObsGetVideo \<in> set (new_calls s (snd ?r))
      \<and> last (new_calls s (snd ?r)) = ObsGetVideo"
    by (simp add: nc r)
  have c: "ObsGetVideo \<in> set (new_calls s (snd ?r)) \<longrightarrow>
      fst ?g = None \<and> fst ?r = Some (main_video env) \<and> last (new_calls s (snd ?r)) = ObsGetVideo"
    by (auto simp: nc r canvas_calls_no_main canvas_tier_fst split: option.splits if_splits)
  have d: "hd (new_calls s (snd ?r)) = ObsGetProcHandler"
    by (simp add: nc)
  have e: "FrontendGetCanvases \<in> set (new_calls s (snd ?r)) \<longrightarrow>
      HAVE_OBS_CANVAS_API env \<and> fst ?g = None"
    by (auto simp: nc split: option.splits if_splits)
  show ?thesis
    using a b m1 m2 m c d e acquire_video_not_null acquire_video_frame(1) by blast
qed

text \<open>
  The tiers at concrete hosts: vendor answer, canvas match, neither, a canvas that
  grants no reference, and a canvas without video.
\<close>

theorem acquire_video_tiers_witness:
  "fst (get_aitum_vertical_video vendor_host initial_state) = Some 42
   \<and> fst (acquire_video vendor_host initial_state) = Some 42
   \<and> new_calls initial_state (snd (acquire_video vendor_host initial_state))
       = [ObsGetProcHandler, ProcHandlerCall ''aitum_vertical_get_video'']
   \<and> fst (get_aitum_vertical_video canvas_host initial_state) = None
   \<and> find_canvas (canvases canvas_host) = Some (aitum_canvas (Some 7))
   \<and> fst (acquire_video canvas_host initial_state) = Some 7
   \<and> FrontendGetCanvases \<in> set (new_calls initial_state (snd (acquire_video canvas_host initial_state)))
   \<and> HAVE_OBS_CANVAS_API canvas_host
   \<and> ObsGetVideo \<notin> set (new_calls initial_state (snd (acquire_video canvas_host initial_state)))
   \<and> ObsGetVideo \<in> set (new_calls initial_state (snd (acquire_video plain_host initial_state)))
   \<and> fst (acquire_video plain_host initial_state) = Some 1
   \<and> \<not> canvas_alive (aitum_canvas (Some 7)\<lparr>canvas_alive := False\<rparr>)
   \<and> fst (acquire_video dying_canvas_host initial_state) = Some 1
   \<and> last (new_calls initial_state (snd (acquire_video dying_canvas_host initial_state))) = ObsGetVideo
   \<and> fst (acquire_video blank_canvas_host initial_state) = Some 1
   \<and> last (new_calls initial_state (snd (acquire_video blank_canvas_host initial_state))) = ObsGetVideo"
  using acquire_video_tiers [of vendor_host initial_state 42]
    acquire_video_tiers [of canvas_host initial_state _ "aitum_canvas (Some 7)" 7]
    acquire_video_tiers [of plain_host initial_state]
    acquire_video_tiers [of dying_canvas_host initial_state _
       "aitum_canvas (Some 7)\<lparr>canvas_alive := False\<rparr>"]
    acquire_video_tiers [of blank_canvas_host initial_state _ "aitum_canvas None"]
  by (simp add: scenario_defs resolver_defs)

text \<open>
  No vendor handle, canvas interface compiled in, a canvas named "Aitum Vertical"
  exists, and yet \<open>obs_get_video\<close> is called: the canvas has no video.
\<close>

theorem acquire_video_canvas_counterexample:
  "fst (get_aitum_vertical_video blank_canvas_host initial_state) = None
   \<and> HAVE_OBS_CANVAS_API blank_canvas_host
   \<and> map canvas_name (canvases blank_canvas_host) = [Some ''Aitum Vertical'']
   \<and> ObsGetVideo \<in> set (new_calls initial_state (snd (acquire_video blank_canvas_host initial_state)))"
  by (simp add: scenario_defs resolver_defs)

text \<open>
  C2 (failed start, as the code has it). When the context holds a live output and the
  start request fails, then afterwards \<open>is_running\<close> is false, \<open>last_error\<close> is the
  error text of the output, the last interface call is the stop request on that output,
  and the output is inactive. The video resolved for this attempt and the host audio
  are still bound to the output when the call returns: the failure path does not
  detach them.
\<close>

theorem failed_start:
  assumes "output_ptr (vctx s) = Some h" and "outputs s h = Some ob" and "\<not> start_ok env"
  shows "\<not> is_running (vctx (vertical_output_start env s))
    \<and> last_error (vctx (vertical_output_start env s)) = start_error env
    \<and> last (calls (vertical_output_start env s)) = OutputStop (Some h)
    \<and> map_option active (outputs (vertical_output_start env s) h) = Some False
    \<and> map_option media_audio (outputs (vertical_output_start env s) h) = Some (Some (main_audio env))
    \<and> map_option media_video (outputs (vertical_output_start env s) h)
        = Some (fst (acquire_video env (if is_running (vctx s) then vertical_output_stop s else s)))
    \<and> map_option media_video (outputs (vertical_output_start env s) h) \<noteq> Some None
    \<and> media_bound (vertical_output_start env s)"
  using assms
  by (simp add: start_vctx start_calls start_outputs media_bound_def live_output_def
      acquire_video_not_null)

text \<open>A restart of the running output on a host that answers "device busy".\<close>

theorem failed_start_witness:
  "\<not> is_running (vctx (vertical_output_start busy_host running_state))
    \<and> last_error (vctx (vertical_output_start busy_host running_state)) = ''device busy''
    \<and> last (calls (vertical_output_start busy_host running_state)) = OutputStop (Some 0)
    \<and> media_bound (vertical_output_start busy_host running_state)"
proof -
  have a: "output_ptr (vctx running_state) = Some 0"
    by (simp add: running_state_eval)
  have b: "outputs running_state 0 = Some \<lparr>output_id = ''ndi_output'', output_name = ''NDI Vertical Output'',
          output_settings = init_settings cfg_V1, media_video = Some 1, media_audio = Some 2,
          active = True, last_error_message = [],
          handlers = [(''start'', on_vertical_output_started), (''stop'', on_vertical_output_stopped)]\<rparr>"
    by (simp add: running_state_eval)
  have c: "\<not> start_ok busy_host"
    by (simp add: busy_host_def)
  show ?thesis
    using failed_start [OF a b c] by (simp add: busy_host_def)
qed

text \<open>
  After the failed start on an initialized output, main video 1 and audio 2 are still
  bound to it.
\<close>

theorem failed_start_media_counterexample:
  "output_ptr (vctx running_state) = Some 0
   \<and> \<not> start_ok busy_host
   \<and> \<not> is_running (vctx (vertical_output_start busy_host running_state))
   \<and> last_error (vctx (vertical_output_start busy_host running_state)) = ''device busy''
   \<and> map_option media_video (outputs (vertical_output_start busy_host running_state) 0) = Some (Some 1)
   \<and> map_option media_audio (outputs (vertical_output_start busy_host running_state) 0) = Some (Some 2)"
  by (simp add: running_state_eval start_vctx start_outputs)
     (simp add: scenario_defs resolver_defs vertical_output_stop_def)




text \<open>
  C4 (teardown order). When an output exists, the interface calls of
  \<open>vertical_output_deinit\<close> are, in this order: the calls of the stop if it was
  running, the detaching of the media, the two disconnects for "start" and "stop", and
  the release as the last call. Both disconnects occur before the release, and the
  output is gone afterwards. Without an output, no call is made.
\<close>

theorem deinit_unsubscribes_first:
  "(output_ptr (vctx s) = Some h \<longrightarrow>
      new_calls s (vertical_output_deinit s) =
        (if is_running (vctx s)
         then [OutputSetMedia (Some h) None None, OutputStop (Some h)] else [])
        @ [OutputSetMedia (Some h) None None, OutputGetSignalHandler (Some h),
           SignalHandlerDisconnect (Some h) ''start'' on_vertical_output_started,
           SignalHandlerDisconnect (Some h) ''stop'' on_vertical_output_stopped,
           OutputRelease (Some h)]
      \<and> SignalHandlerDisconnect (Some h) ''start'' on_vertical_output_started
           \<in> set (takeWhile (\<lambda>c. c \<noteq> OutputRelease (Some h)) (new_calls s (vertical_output_deinit s)))
      \<and> SignalHandlerDisconnect (Some h) ''stop'' on_vertical_output_stopped
           \<in> set (takeWhile (\<lambda>c. c \<noteq> OutputRelease (Some h)) (new_calls s (vertical_output_deinit s)))
      \<and> last (new_calls s (vertical_output_deinit s)) = OutputRelease (Some h)
      \<and> outputs (vertical_output_deinit s) h = None)
   \<and> (output_ptr (vctx s) = None \<longrightarrow> new_calls s (vertical_output_deinit s) = [])"
proof -
  have a: "new_calls s (vertical_output_deinit s) =
        (if is_running (vctx s)
         then [OutputSetMedia (Some h) None None, OutputStop (Some h)] else [])
        @ [OutputSetMedia (Some h) None None, OutputGetSignalHandler (Some h),
           SignalHandlerDisconnect (Some h) ''start'' on_vertical_output_started,
           SignalHandlerDisconnect (Some h) ''stop'' on_vertical_output_stopped,
           OutputRelease (Some h)]" if "output_ptr (vctx s) = Some h"
    by (rule new_calls_append) (simp add: deinit_calls that)
  have b: "new_calls s (vertical_output_deinit s) = []" if "output_ptr (vctx s) = None"
    using that by (simp add: deinit_null new_calls_def)
  show ?thesis
    using b by (auto simp: a deinit_outputs)
qed

text \<open>The teardown of a running output, and of the initial state.\<close>

theorem deinit_unsubscribes_first_witness:
  "output_ptr (vctx running_state) = Some 0
   \<and> new_calls running_state (vertical_output_deinit running_state) =
       [OutputSetMedia (Some 0) None None, OutputStop (Some 0),
        OutputSetMedia (Some 0) None None, OutputGetSignalHandler (Some 0),
        SignalHandlerDisconnect (Some 0) ''start'' on_vertical_output_started,
        SignalHandlerDisconnect (Some 0) ''stop'' on_vertical_output_stopped,
        OutputRelease (Some 0)]
   \<and> new_calls initial_state (vertical_output_deinit initial_state) = []"
  using deinit_unsubscribes_first [of running_state 0] deinit_unsubscribes_first [of initial_state]
  by (simp add: running_state_eval) (simp add: scenario_defs)

text \<open>
  C5 (initialisation). In a state that satisfies the context invariants:
  if the configuration is disabled or its name is empty, \<open>vertical_output_init\<close> is
  \<open>vertical_output_deinit\<close>, leaves no output and \<open>is_running\<close> false, and makes no
  creation call. Otherwise it tears down first and then requests an output with the
  settings name, groups and \<open>uses_audio = true\<close>, name and groups as the C strings
  that \<open>QT_TO_UTF8\<close> yields: the configured values themselves when they hold no NUL.
  If the creation fails, that request is its last call and the context has no output.
  If it succeeds, both callbacks are connected, the configured name and groups are
  stored in the context, and \<open>vertical_output_start\<close> runs on that state.
\<close>

theorem init_behaviour:
  assumes "ctx_inv s"
  shows
    "(\<not> VerticalOutputEnabled cfg \<or> VerticalOutputName cfg = [] \<longrightarrow>
        vertical_output_init cfg env s = vertical_output_deinit s
        \<and> output_ptr (vctx (vertical_output_init cfg env s)) = None
        \<and> \<not> is_running (vctx (vertical_output_init cfg env s))
        \<and> (\<forall>a b d. OutputCreate a b d \<notin> set (new_calls s (vertical_output_init cfg env s))))
     \<and> (VerticalOutputEnabled cfg \<and> VerticalOutputName cfg \<noteq> [] \<and> \<not> create_ok env \<longrightarrow>
        output_ptr (vctx (vertical_output_init cfg env s)) = None
        \<and> \<not> is_running (vctx (vertical_output_init cfg env s))
        \<and> calls (vertical_output_init cfg env s) =
            calls (vertical_output_deinit s)
              @ [OutputCreate ''ndi_output'' ''NDI Vertical Output'' (init_settings cfg)])
     \<and> (VerticalOutputEnabled cfg \<and> VerticalOutputName cfg \<noteq> [] \<and> create_ok env \<longrightarrow>
        vertical_output_init cfg env s
          = vertical_output_start env (subscribed cfg (vertical_output_deinit s))
        \<and> output_ptr (vctx (vertical_output_init cfg env s)) = Some (next_output s)
        \<and> ndi_name (vctx (vertical_output_init cfg env s)) = VerticalOutputName cfg
        \<and> ndi_groups (vctx (vertical_output_init cfg env s)) = VerticalOutputGroups cfg
        \<and> map_option handlers (outputs (vertical_output_init cfg env s) (next_output s))
            = Some [(''start'', on_vertical_output_started), (''stop'', on_vertical_output_stopped)]
        \<and> map_option output_settings (outputs (vertical_output_init cfg env s) (next_output s))
            = Some [(''ndi_name'', DString (QT_TO_UTF8 (VerticalOutputName cfg))),
                    (''ndi_groups'', DString (QT_TO_UTF8 (VerticalOutputGroups cfg))),
                    (''uses_audio'', DBool True)]
        \<and> take 4 (new_calls (vertical_output_deinit s) (vertical_output_init cfg env s)) =
            [OutputCreate ''ndi_output'' ''NDI Vertical Output'' (init_settings cfg),
             OutputGetSignalHandler (Some (next_output s)),
             SignalHandlerConnect (Some (next_output s)) ''start'' on_vertical_output_started,
             SignalHandlerConnect (Some (next_output s)) ''stop'' on_vertical_output_stopped])
     \<and> (CHR 0x00 \<notin> set (VerticalOutputName cfg) \<and> CHR 0x00 \<notin> set (VerticalOutputGroups cfg) \<longrightarrow>
        init_settings cfg = [(''ndi_name'', DString (VerticalOutputName cfg)),
                             (''ndi_groups'', DString (VerticalOutputGroups cfg)),
                             (''uses_audio'', DBool True)])"
proof -
  let ?d = "vertical_output_deinit s"
  have dn: "output_ptr (vctx ?d) = None" by (rule deinit_output_ptr)
  have dr: "\<not> is_running (vctx ?d)"
    using assms by (cases "output_ptr (vctx s)") (auto simp: deinit_null deinit_vctx ctx_inv_def)
  have dc: "\<forall>a b d. OutputCreate a b d \<notin> set (new_calls s ?d)"
  proof (cases "output_ptr (vctx s)")
    case None
    then show ?thesis by (simp add: deinit_null new_calls_def)
  next
    case (Some h)
    then show ?thesis by (simp add: deinit_calls new_calls_def)
  qed
  have off: "\<not> VerticalOutputEnabled cfg \<or> VerticalOutputName cfg = [] \<Longrightarrow>
      vertical_output_init cfg env s = ?d"
    by (auto simp: vertical_output_init_def)
  have on: "VerticalOutputEnabled cfg \<and> VerticalOutputName cfg \<noteq> [] \<Longrightarrow>
      vertical_output_init cfg env s = create_and_start cfg env ?d"
    by (simp add: vertical_output_init_def)
  have fail: "create_and_start cfg env ?d =
      ?d\<lparr>vctx := (vctx ?d)\<lparr>output_ptr := None\<rparr>,
         calls := calls ?d @ [OutputCreate ''ndi_output'' ''NDI Vertical Output'' (init_settings cfg)]\<rparr>"
    if "\<not> create_ok env"
    using that by (rule create_and_start_fail)
  let ?m = "subscribed cfg ?d"
  let ?r = "vertical_output_start env ?m"
  have ok: "create_and_start cfg env ?d = ?r" if "create_ok env"
    using that by (rule create_and_start_ok)
  have mp: "output_ptr (vctx ?m) = Some (next_output s)"
    by (simp add: subscribed_def deinit_next_output)
  have r1: "output_ptr (vctx ?r) = Some (next_output s)
      \<and> ndi_name (vctx ?r) = VerticalOutputName cfg
      \<and> ndi_groups (vctx ?r) = VerticalOutputGroups cfg"
    by (simp add: start_keeps) (simp add: subscribed_def deinit_next_output)
  have r2: "map_option handlers (outputs ?r (next_output s))
      = Some [(''start'', on_vertical_output_started), (''stop'', on_vertical_output_stopped)]
    \<and> map_option output_settings (outputs ?r (next_output s)) = Some (init_settings cfg)"
    by (simp add: start_outputs [OF mp]) (simp add: subscribed_def deinit_next_output)
  obtain xs where xs: "calls ?r = calls ?m @ xs"
    using start_extends by blast
  have r3: "take 4 (new_calls ?d ?r) =
            [OutputCreate ''ndi_output'' ''NDI Vertical Output'' (init_settings cfg),
             OutputGetSignalHandler (Some (next_output s)),
             SignalHandlerConnect (Some (next_output s)) ''start'' on_vertical_output_started,
             SignalHandlerConnect (Some (next_output s)) ''stop'' on_vertical_output_stopped]"
    by (simp add: new_calls_def xs) (simp add: subscribed_def deinit_next_output)
  have A: "\<not> VerticalOutputEnabled cfg \<or> VerticalOutputName cfg = [] \<longrightarrow>
        vertical_output_init cfg env s = vertical_output_deinit s
        \<and> output_ptr (vctx (vertical_output_init cfg env s)) = None
        \<and> \<not> is_running (vctx (vertical_output_init cfg env s))
        \<and> (\<forall>a b d. OutputCreate a b d \<notin> set (new_calls s (vertical_output_init cfg env s)))"
    using off dn dr dc by simp
  have B: "VerticalOutputEnabled cfg \<and> VerticalOutputName cfg \<noteq> [] \<and> \<not> create_ok env \<longrightarrow>
        output_ptr (vctx (vertical_output_init cfg env s)) = None
        \<and> \<not> is_running (vctx (vertical_output_init cfg env s))
        \<and> calls (vertical_output_init cfg env s) =
            calls (vertical_output_deinit s)
              @ [OutputCreate ''ndi_output'' ''NDI Vertical Output'' (init_settings cfg)]"
    using dr by (simp add: on fail)
  have C: "VerticalOutputEnabled cfg \<and> VerticalOutputName cfg \<noteq> [] \<and> create_ok env \<longrightarrow>
        vertical_output_init cfg env s = ?r
        \<and> output_ptr (vctx (vertical_output_init cfg env s)) = Some (next_output s)
        \<and> ndi_name (vctx (vertical_output_init cfg env s)) = VerticalOutputName cfg
        \<and> ndi_groups (vctx (vertical_output_init cfg env s)) = VerticalOutputGroups cfg
        \<and> map_option handlers (outputs (vertical_output_init cfg env s) (next_output s))
            = Some [(''start'', on_vertical_output_started), (''stop'', on_vertical_output_stopped)]
        \<and> map_option output_settings (outputs (vertical_output_init cfg env s) (next_output s))
            = Some [(''ndi_name'', DString (QT_TO_UTF8 (VerticalOutputName cfg))),
                    (''ndi_groups'', DString (QT_TO_UTF8 (VerticalOutputGroups cfg))),
                    (''uses_audio'', DBool True)]
        \<and> take 4 (new_calls (vertical_output_deinit s) (vertical_output_init cfg env s)) =
            [OutputCreate ''ndi_output'' ''NDI Vertical Output'' (init_settings cfg),
             OutputGetSignalHandler (Some (next_output s)),
             SignalHandlerConnect (Some (next_output s)) ''start'' on_vertical_output_started,
             SignalHandlerConnect (Some (next_output s)) ''stop'' on_vertical_output_stopped]"
    using r1 r2 r3 by (simp add: on ok init_settings_def)
  have D: "CHR 0x00 \<notin> set (VerticalOutputName cfg) \<and> CHR 0x00 \<notin> set (VerticalOutputGroups cfg) \<longrightarrow>
        init_settings cfg = [(''ndi_name'', DString (VerticalOutputName cfg)),
                             (''ndi_groups'', DString (VerticalOutputGroups cfg)),
                             (''uses_audio'', DBool True)]"
    by (simp add: init_settings_def QT_TO_UTF8_id)
  show ?thesis using A B C D by blast
qed

text \<open>
  Disabled, creation refused and creation granted, each on the running state; and a
  name with an embedded NUL, of which the host receives the part before it.
\<close>

theorem init_behaviour_witness:
  "vertical_output_init cfg_disabled plain_host running_state = vertical_output_deinit running_state
   \<and> output_ptr (vctx (vertical_output_init cfg_disabled plain_host running_state)) = None
   \<and> \<not> is_running (vctx (vertical_output_init cfg_disabled plain_host running_state))
   \<and> output_ptr (vctx (vertical_output_init cfg_V1 (plain_host\<lparr>create_ok := False\<rparr>) running_state)) = None
   \<and> output_ptr (vctx (vertical_output_init cfg_V1 plain_host running_state)) = Some 1
   \<and> ndi_name (vctx (vertical_output_init cfg_V1 plain_host running_state)) = ''V1''
   \<and> ndi_groups (vctx (vertical_output_init cfg_V1 plain_host running_state)) = ''G''
   \<and> map_option output_settings (outputs (vertical_output_init cfg_V1 plain_host running_state) 1)
       = Some [(''ndi_name'', DString ''V1''), (''ndi_groups'', DString ''G''),
               (''uses_audio'', DBool True)]
   \<and> init_settings cfg_V1 = [(''ndi_name'', DString ''V1''), (''ndi_groups'', DString ''G''),
                             (''uses_audio'', DBool True)]
   \<and> map_option output_settings (outputs (vertical_output_init cfg_nul plain_host running_state) 1)
       = Some [(''ndi_name'', DString ''A''), (''ndi_groups'', DString ''G''),
               (''uses_audio'', DBool True)]
   \<and> ndi_name (vctx (vertical_output_init cfg_nul plain_host running_state)) = ''A'' @ [CHR 0x00] @ ''B''"
proof -
  have i: "ctx_inv running_state"
    by (simp add: running_state_eval ctx_inv_def media_bound_def live_output_def)
  have n: "next_output running_state = 1"
    by (simp add: running_state_eval)
  have off: "\<not> VerticalOutputEnabled cfg_disabled \<or> VerticalOutputName cfg_disabled = []"
    by (simp add: cfg_disabled_def)
  have nocreate: "VerticalOutputEnabled cfg_V1 \<and> VerticalOutputName cfg_V1 \<noteq> []
      \<and> \<not> create_ok (plain_host\<lparr>create_ok := False\<rparr>)"
    by (simp add: cfg_V1_def)
  have on: "VerticalOutputEnabled cfg_V1 \<and> VerticalOutputName cfg_V1 \<noteq> [] \<and> create_ok plain_host"
    by (simp add: cfg_V1_def plain_host_def)
  have on': "VerticalOutputEnabled cfg_nul \<and> VerticalOutputName cfg_nul \<noteq> [] \<and> create_ok plain_host"
    by (simp add: cfg_nul_def plain_host_def)
  have clean: "CHR 0x00 \<notin> set (VerticalOutputName cfg_V1) \<and> CHR 0x00 \<notin> set (VerticalOutputGroups cfg_V1)"
    by (simp add: cfg_V1_def)
  have nm: "VerticalOutputName cfg_V1 = ''V1''" "VerticalOutputGroups cfg_V1 = ''G''"
    "QT_TO_UTF8 ''V1'' = ''V1''" "QT_TO_UTF8 ''G'' = ''G''"
    "VerticalOutputName cfg_nul = ''A'' @ [CHR 0x00] @ ''B''"
    "QT_TO_UTF8 (''A'' @ [CHR 0x00] @ ''B'') = ''A''" "VerticalOutputGroups cfg_nul = ''G''"
    by (simp_all add: cfg_V1_def cfg_nul_def QT_TO_UTF8_def)
  have A: "vertical_output_init cfg_disabled plain_host running_state
        = vertical_output_deinit running_state
      \<and> output_ptr (vctx (vertical_output_init cfg_disabled plain_host running_state)) = None
      \<and> \<not> is_running (vctx (vertical_output_init cfg_disabled plain_host running_state))"
    using off init_behaviour [OF i, of cfg_disabled plain_host] by blast
  have B: "output_ptr (vctx (vertical_output_init cfg_V1 (plain_host\<lparr>create_ok := False\<rparr>)
      running_state)) = None"
    using nocreate init_behaviour [OF i, of cfg_V1 "plain_host\<lparr>create_ok := False\<rparr>"] by blast
  have C: "output_ptr (vctx (vertical_output_init cfg_V1 plain_host running_state)) = Some 1
      \<and> ndi_name (vctx (vertical_output_init cfg_V1 plain_host running_state)) = ''V1''
      \<and> ndi_groups (vctx (vertical_output_init cfg_V1 plain_host running_state)) = ''G''
      \<and> map_option output_settings (outputs (vertical_output_init cfg_V1 plain_host running_state) 1)
          = Some [(''ndi_name'', DString ''V1''), (''ndi_groups'', DString ''G''),
                  (''uses_audio'', DBool True)]
      \<and> init_settings cfg_V1 = [(''ndi_name'', DString ''V1''), (''ndi_groups'', DString ''G''),
                                (''uses_audio'', DBool True)]"
    using on clean init_behaviour [OF i, of cfg_V1 plain_host]
    unfolding n nm by blast
  have D: "map_option output_settings (outputs (vertical_output_init cfg_nul plain_host running_state) 1)
        = Some [(''ndi_name'', DString ''A''), (''ndi_groups'', DString ''G''),
                (''uses_audio'', DBool True)]
      \<and> ndi_name (vctx (vertical_output_init cfg_nul plain_host running_state))
          = ''A'' @ [CHR 0x00] @ ''B''"
    using on' init_behaviour [OF i, of cfg_nul plain_host]
    unfolding n nm by blast
  show ?thesis
    using A B C D by blast
qed

text \<open>
  C6 (context invariants). After every sequence of entry-point calls from the initial
  state: no output implies not running, and running implies an output that is live
  and has a video and an audio source bound.
\<close>

theorem context_invariants: "ctx_inv (run cs initial_state)"
  by (rule wf_ctx_inv) (rule wf_reachable)

text \<open>After one initialisation the output runs; after the teardown there is none.\<close>

theorem context_invariants_witness:
  "is_running (vctx (run [Init cfg_V1 plain_host] initial_state))
   \<and> ctx_inv (run [Init cfg_V1 plain_host] initial_state)
   \<and> output_ptr (vctx (run [Init cfg_V1 plain_host, Deinit] initial_state)) = None
   \<and> ctx_inv (run [Init cfg_V1 plain_host, Deinit] initial_state)"
  using context_invariants [of "[Init cfg_V1 plain_host]"]
    context_invariants [of "[Init cfg_V1 plain_host, Deinit]"]
  by (simp add: running_state_def [symmetric] deinit_output_ptr) (simp add: running_state_eval)

text \<open>
  C7 (idle stop). When \<open>is_running\<close> is false, \<open>vertical_output_stop\<close> returns the
  state as it is, context, host objects and call log alike: it makes no interface call.
\<close>

theorem stop_when_idle:
  "\<not> is_running (vctx s) \<Longrightarrow>
     vertical_output_stop s = s \<and> new_calls s (vertical_output_stop s) = []"
  by (simp add: vertical_output_stop_def new_calls_def)

text \<open>The initial state is not running.\<close>

theorem stop_when_idle_witness:
  "\<not> is_running (vctx initial_state) \<and> vertical_output_stop initial_state = initial_state
   \<and> new_calls initial_state (vertical_output_stop initial_state) = []"
proof -
  have h: "\<not> is_running (vctx initial_state)"
    by (simp add: initial_state_def vctx0_def)
  show ?thesis using h stop_when_idle [OF h] by (simp add: new_calls_def)
qed

text \<open>
  C8 (capability probe). \<open>vertical_output_is_supported\<close> answers true exactly when the
  creation and the start request both succeed. It leaves the context as it is and its
  answer does not depend on the context. Its calls are the creation with the fixed probe
  settings and, if an output was created, start, stop and release of that output, in
  this order; the created output is gone afterwards and no other output is changed.
\<close>

theorem probe_is_self_contained:
  "fst (vertical_output_is_supported env s) = (create_ok env \<and> start_ok env)
   \<and> vctx (snd (vertical_output_is_supported env s)) = vctx s
   \<and> fst (vertical_output_is_supported env (s\<lparr>vctx := c\<rparr>)) = fst (vertical_output_is_supported env s)
   \<and> new_calls s (snd (vertical_output_is_supported env s)) =
       OutputCreate ''ndi_output'' ''NDI Vertical Output''
         [(''ndi_name'', DString ''NDI Vertical Support Test''),
          (''ndi_groups'', DString ''DistroAV Config'')] #
       (if create_ok env
        then [OutputStart (Some (next_output s)), OutputStop (Some (next_output s)),
              OutputRelease (Some (next_output s))]
        else [])
   \<and> (create_ok env \<longrightarrow> outputs (snd (vertical_output_is_supported env s)) (next_output s) = None)
   \<and> (\<forall>k. k \<noteq> next_output s \<longrightarrow>
        outputs (snd (vertical_output_is_supported env s)) k = outputs s k)
   \<and> (\<not> create_ok env \<longrightarrow> outputs (snd (vertical_output_is_supported env s)) = outputs s)"
proof -
  have c: "new_calls s (snd (vertical_output_is_supported env s)) =
       OutputCreate ''ndi_output'' ''NDI Vertical Output'' probe_settings #
       (if create_ok env
        then [OutputStart (Some (next_output s)), OutputStop (Some (next_output s)),
              OutputRelease (Some (next_output s))]
        else [])"
    by (rule new_calls_append) (simp add: is_supported_calls)
  have o: "\<not> create_ok env \<longrightarrow> outputs (snd (vertical_output_is_supported env s)) = outputs s"
    by (simp add: fun_eq_iff is_supported_outputs)
  show ?thesis
    using o by (simp add: is_supported_result is_supported_vctx is_supported_outputs c probe_settings_def)
qed

text \<open>The probe beside a running output: success, start failure, creation failure.\<close>

theorem probe_is_self_contained_witness:
  "fst (vertical_output_is_supported plain_host running_state)
   \<and> \<not> fst (vertical_output_is_supported busy_host running_state)
   \<and> \<not> fst (vertical_output_is_supported (plain_host\<lparr>create_ok := False\<rparr>) running_state)
   \<and> vctx (snd (vertical_output_is_supported busy_host running_state)) = vctx running_state
   \<and> outputs (snd (vertical_output_is_supported busy_host running_state)) 1 = None
   \<and> outputs (snd (vertical_output_is_supported busy_host running_state)) 0 = outputs running_state 0"
proof -
  have n: "next_output running_state = 1"
    by (simp add: running_state_eval)
  show ?thesis
    using probe_is_self_contained [of plain_host running_state]
      probe_is_self_contained [of busy_host running_state]
      probe_is_self_contained [of "plain_host\<lparr>create_ok := False\<rparr>" running_state]
    by (simp add: n busy_host_def plain_host_def)
qed

text \<open>
  C9 (teardown clears the context, as the code has it). In every state reached from the
  initial one by entry-point calls, \<open>vertical_output_deinit\<close> leaves the output pointer
  null, \<open>is_running\<close> false, name and groups empty, and \<open>last_error\<close> as it was:
  the error text is not reset.
\<close>

theorem deinit_clears_context:
  "vctx (vertical_output_deinit (run cs initial_state)) =
     \<lparr>is_running = False, ndi_name = [], ndi_groups = [],
      last_error = last_error (vctx (run cs initial_state)), output_ptr = None\<rparr>"
proof -
  let ?s = "run cs initial_state"
  have wf: "ctx_wf ?s" by (rule wf_reachable)
  show ?thesis
  proof (cases "output_ptr (vctx ?s)")
    case None
    then show ?thesis using wf by (simp add: deinit_null ctx_wf_def)
  next
    case (Some h)
    then show ?thesis by (simp add: deinit_vctx)
  qed
qed

text \<open>The teardown after a failed initialisation.\<close>

theorem deinit_clears_context_witness:
  "vctx (vertical_output_deinit (run [Init cfg_V1 busy_host] initial_state)) =
     \<lparr>is_running = False, ndi_name = [], ndi_groups = [],
      last_error = ''device busy'', output_ptr = None\<rparr>"
  using deinit_clears_context [of "[Init cfg_V1 busy_host]"]
  by (simp add: failed_state_def [symmetric] failed_state_vctx)

text \<open>
  The error text of a failed initialisation survives the teardown, while the initial
  value of \<open>last_error\<close> is the empty string.
\<close>

theorem deinit_keeps_last_error_counterexample:
  "last_error (vctx initial_state) = []
   \<and> last_error (vctx (vertical_output_deinit failed_state)) = ''device busy''"
  by (simp add: deinit_vctx failed_state_vctx) (simp add: initial_state_def vctx0_def)

text \<open>
  C10 (idempotent teardown). Without an output, \<open>vertical_output_deinit\<close> returns the
  state as it is and makes no interface call; a second teardown in a row changes
  nothing.
\<close>

theorem deinit_idempotent:
  "(output_ptr (vctx s) = None \<longrightarrow>
      vertical_output_deinit s = s \<and> new_calls s (vertical_output_deinit s) = [])
   \<and> vertical_output_deinit (vertical_output_deinit s) = vertical_output_deinit s"
  by (simp add: deinit_null deinit_output_ptr new_calls_def)

text \<open>The initial state has no output; the running state has one.\<close>

theorem deinit_idempotent_witness:
  "output_ptr (vctx initial_state) = None
   \<and> vertical_output_deinit initial_state = initial_state
   \<and> vertical_output_deinit (vertical_output_deinit running_state) = vertical_output_deinit running_state"
proof -
  have h: "output_ptr (vctx initial_state) = None"
    by (simp add: initial_state_def vctx0_def)
  show ?thesis
    using h deinit_idempotent [of initial_state] deinit_idempotent [of running_state] by simp
qed

end
